theory Spec2Isabelle
  imports Main
begin

section \<open>Python values used by the retriever\<close>

text \<open>
  The retrieval core of the travel planner is the class \<open>DestinationInfoRetriever\<close> of
  \<^verbatim>\<open>TravelAgent.py\<close>. Its methods are embedded as functions that take the object and
  return the updated object together with the value returned or the exception raised.

  An exception carries its class name and the message that \<^verbatim>\<open>str(e)\<close> prints.
\<close>

datatype exn = Exn (exn_class: string) (str: string)

definition IndexError :: exn where
  "IndexError = Exn ''IndexError'' ''list index out of range''"

text \<open>
  Subscription \<^verbatim>\<open>xs[i]\<close> of a list by an integer. Positions \<open>0 \<dots> len - 1\<close> are read
  directly, positions \<open>-len \<dots> -1\<close> are read from the end of the list (so \<open>-1\<close> is the
  last item), and every other position raises \<open>IndexError\<close>.
\<close>

definition getitem :: "'a list \<Rightarrow> int \<Rightarrow> exn + 'a" where
  "getitem xs i =
     (if 0 \<le> i \<and> i < int (length xs) then Inr (xs ! nat i)
      else if - int (length xs) \<le> i \<and> i < 0 then Inr (xs ! nat (int (length xs) + i))
      else Inl IndexError)"

text \<open>
  The comprehension \<^verbatim>\<open>[xs[i] for i in labels]\<close>: the items are read from left to right
  and the first failing read raises.
\<close>

fun getitems :: "'a list \<Rightarrow> int list \<Rightarrow> exn + 'a list" where
  "getitems xs [] = Inr []"
| "getitems xs (i # labels) =
     (case getitem xs i of
        Inl e \<Rightarrow> Inl e
      | Inr x \<Rightarrow> (case getitems xs labels of Inl e \<Rightarrow> Inl e | Inr ys \<Rightarrow> Inr (x # ys)))"

text \<open>\<^verbatim>\<open>sep.join(xs)\<close>.\<close>

fun join :: "string \<Rightarrow> string list \<Rightarrow> string" where
  "join sep [] = []"
| "join sep [x] = x"
| "join sep (x # y # ys) = x @ sep @ join sep (y # ys)"

definition newline :: string where
  "newline = [CHR 0x0A]"


section \<open>The collaborators\<close>

text \<open>
  \<^verbatim>\<open>GoogleSearch(params).get_dict()\<close> is a call to the SerpAPI service: it raises or returns
  a dictionary. Of the dictionary only the key \<^verbatim>\<open>organic_results\<close> is read, and of each
  organic result only the key \<^verbatim>\<open>snippet\<close>; an absent key is \<open>None\<close>.
\<close>

record params =
  engine :: string
  q :: string
  api_key :: string

record organic_result =
  snippet :: "string option"

record results =
  organic_results :: "organic_result list option"

type_synonym serpapi = "params \<Rightarrow> exn + results"

text \<open>
  \<^verbatim>\<open>self.encoder.encode(texts)\<close> is the sentence-embedding model: it raises or returns one
  array of vectors. The vectors are of an arbitrary type \<open>'v\<close>; nothing in the retriever
  looks inside them.
\<close>

type_synonym 'v encoder = "string list \<Rightarrow> exn + 'v list"

text \<open>
  \<^verbatim>\<open>faiss.IndexFlatL2\<close> is a library object: it stores the added vectors in the order of their
  insertion, \<^verbatim>\<open>add\<close> appends to them, and position \<open>i\<close> is the label of the \<open>i\<close>-th vector
  ever added. The index is therefore the list of the stored vectors.
  \<^verbatim>\<open>search(x, k)\<close> is the library's ranking: it raises or returns one row of labels for each
  row of \<open>x\<close>. Which stored vector is nearer than which is the library's own computation on
  floating-point numbers, so the ranking is a parameter of the model.
\<close>

type_synonym 'v searcher = "'v list \<Rightarrow> 'v list \<Rightarrow> nat \<Rightarrow> exn + int list list"

text \<open>
  What the library documents about one row of labels returned for an index of \<open>ntotal\<close>
  vectors and a request for \<open>k\<close> neighbours: the row has \<open>k\<close> labels; the labels of the
  neighbours found come first, are positions of the index and are distinct; where fewer than
  \<open>k\<close> vectors are stored the rest of the row is filled with \<open>-1\<close>.
\<close>

definition search_row :: "nat \<Rightarrow> nat \<Rightarrow> int list \<Rightarrow> bool" where
  "search_row ntotal k labels \<longleftrightarrow>
     length labels = k \<and>
     distinct (take ntotal labels) \<and>
     list_all (\<lambda>l. 0 \<le> l \<and> l < int ntotal) (take ntotal labels) \<and>
     drop ntotal labels = replicate (k - ntotal) (- 1)"

text \<open>
  \<^verbatim>\<open>indices[0]\<close> on the array of rows that \<^verbatim>\<open>search\<close> returned.
\<close>

definition first_row :: "int list list \<Rightarrow> exn + int list" where
  "first_row indices =
     (case indices of
        [] \<Rightarrow> Inl (Exn ''IndexError'' ''index 0 is out of bounds for axis 0 with size 0'')
      | row # _ \<Rightarrow> Inr row)"


section \<open>DestinationInfoRetriever\<close>

text \<open>
  The attributes of the object. \<open>encoder_calls\<close> is not an attribute: it records, in order,
  the batches that were handed to \<^verbatim>\<open>self.encoder.encode\<close>, so that the number of calls of
  the encoder can be stated.
\<close>

record 'v retriever =
  serpapi_key :: string
  index :: "'v list"
  knowledge_base :: "string list"
  encoder_calls :: "string list list"

text \<open>\<^verbatim>\<open>__init__\<close>: an empty index and an empty knowledge base.\<close>

definition init :: "string \<Rightarrow> 'v retriever" where
  "init key = \<lparr>serpapi_key = key, index = [], knowledge_base = [], encoder_calls = []\<rparr>"

text \<open>
  \<^verbatim>\<open>_get_destination_attractions\<close> and \<^verbatim>\<open>_get_destination_restaurants\<close>: the snippets of the
  first five organic results, the empty string for a result without a snippet, and the empty
  list whenever the search raises.
\<close>

definition get_destination_attractions :: "serpapi \<Rightarrow> 'v retriever \<Rightarrow> string \<Rightarrow> string list" where
  "get_destination_attractions web self destination =
     (case web \<lparr>engine = ''google'', q = ''top attractions in '' @ destination,
                api_key = serpapi_key self\<rparr> of
        Inl e \<Rightarrow> []
      | Inr res \<Rightarrow>
          map (\<lambda>result. case snippet result of None \<Rightarrow> [] | Some text \<Rightarrow> text)
            (take 5 (case organic_results res of None \<Rightarrow> [] | Some rs \<Rightarrow> rs)))"

definition get_destination_restaurants :: "serpapi \<Rightarrow> 'v retriever \<Rightarrow> string \<Rightarrow> string list" where
  "get_destination_restaurants web self destination =
     (case web \<lparr>engine = ''google'', q = ''top restaurants in '' @ destination,
                api_key = serpapi_key self\<rparr> of
        Inl e \<Rightarrow> []
      | Inr res \<Rightarrow>
          map (\<lambda>result. case snippet result of None \<Rightarrow> [] | Some text \<Rightarrow> text)
            (take 5 (case organic_results res of None \<Rightarrow> [] | Some rs \<Rightarrow> rs)))"

text \<open>
  \<^verbatim>\<open>_build_knowledge_base\<close>. \<open>build_body\<close> is the body of the \<^verbatim>\<open>try\<close>: the knowledge base is
  assigned before the encoder is called, so it keeps the new value when the encoder raises.
  \<^verbatim>\<open>self.index.add\<close> appends the batch to the vectors already stored; nothing in the
  method empties the index. For the empty batch the stored vectors stay as they are,
  whether the library accepts the batch or raises on it.
  The handler catches every exception, prints it and lets the method return \<^verbatim>\<open>None\<close>.
\<close>

definition build_body ::
  "serpapi \<Rightarrow> 'v encoder \<Rightarrow> 'v retriever \<Rightarrow> string \<Rightarrow> (exn + unit) \<times> 'v retriever" where
  "build_body web encode self destination =
     (let attractions = get_destination_attractions web self destination;
          restaurants = get_destination_restaurants web self destination;
          self1 = self\<lparr>knowledge_base := attractions @ restaurants\<rparr>;
          self2 = self1\<lparr>encoder_calls := encoder_calls self1 @ [knowledge_base self1]\<rparr>
      in case encode (knowledge_base self1) of
           Inl e \<Rightarrow> (Inl e, self2)
         | Inr embeddings \<Rightarrow> (Inr (), self2\<lparr>index := index self2 @ embeddings\<rparr>))"

definition build_knowledge_base ::
  "serpapi \<Rightarrow> 'v encoder \<Rightarrow> 'v retriever \<Rightarrow> string \<Rightarrow> (exn + unit) \<times> 'v retriever" where
  "build_knowledge_base web encode self destination =
     (case build_body web encode self destination of
        (Inl e, self') \<Rightarrow> (Inr (), self')
      | (Inr u, self') \<Rightarrow> (Inr u, self'))"

text \<open>
  \<^verbatim>\<open>retrieve_relevant_info\<close>. \<open>relevant_info\<close> is the list built inside the \<^verbatim>\<open>try\<close>: the
  query is encoded as a batch of one text, the index is searched with \<open>k = 3\<close>, and each
  label of the first row is read from the knowledge base. The method joins the list with
  newlines; its handler catches every exception and returns the message as the result.
\<close>

definition relevant_info ::
  "'v encoder \<Rightarrow> 'v searcher \<Rightarrow> 'v retriever \<Rightarrow> string \<Rightarrow> exn + string list" where
  "relevant_info encode search self query =
     (case encode [query] of
        Inl e \<Rightarrow> Inl e
      | Inr query_embedding \<Rightarrow>
          (case search (index self) query_embedding 3 of
             Inl e \<Rightarrow> Inl e
           | Inr indices \<Rightarrow>
               (case first_row indices of
                  Inl e \<Rightarrow> Inl e
                | Inr row \<Rightarrow> getitems (knowledge_base self) row)))"

definition retrieve_relevant_info ::
  "'v encoder \<Rightarrow> 'v searcher \<Rightarrow> 'v retriever \<Rightarrow> string \<Rightarrow> (exn + string) \<times> 'v retriever" where
  "retrieve_relevant_info encode search self query =
     (let self1 = self\<lparr>encoder_calls := encoder_calls self @ [[query]]\<rparr>
      in case relevant_info encode search self query of
           Inl e \<Rightarrow> (Inr (''Error retrieving information: '' @ str e), self1)
         | Inr infos \<Rightarrow> (Inr (join newline infos), self1))"


section \<open>Test doubles\<close>

text \<open>
  Concrete collaborators on which the model is run: a search service that answers every
  query with \<open>n\<close> results whose snippet is the query itself, one that is down for the
  attractions query only, one that is down for the restaurants query only; an encoder that
  maps a text to its length (a vector of dimension one), and one that always raises; and an
  exact nearest-neighbour search on those vectors. \<open>paris\<close> is a retriever after one build,
  \<open>paris_rome\<close> the same object after a second build for another destination, \<open>lonely\<close>
  one whose only build gathered a single text, and \<open>athens\<close> one whose build gathered four.
\<close>

definition serp_hits :: "nat \<Rightarrow> serpapi" where
  "serp_hits n p = Inr \<lparr>organic_results = Some (replicate n \<lparr>snippet = Some (q p)\<rparr>)\<rparr>"

definition serp_down :: exn where
  "serp_down = Exn ''ConnectionError'' ''service unreachable''"

definition serp_no_attractions :: "nat \<Rightarrow> serpapi" where
  "serp_no_attractions n p =
     (if take 15 (q p) = ''top attractions'' then Inl serp_down else serp_hits n p)"

definition serp_no_restaurants :: "nat \<Rightarrow> serpapi" where
  "serp_no_restaurants n p =
     (if take 15 (q p) = ''top restaurants'' then Inl serp_down else serp_hits n p)"

definition encode_length :: "int encoder" where
  "encode_length texts = Inr (map (\<lambda>t. int (length t)) texts)"

definition model_unavailable :: exn where
  "model_unavailable = Exn ''ModelUnavailable'' ''embedding model unavailable''"

definition encode_fails :: "int encoder" where
  "encode_fails texts = Inl model_unavailable"

definition nearest :: "int list \<Rightarrow> int \<Rightarrow> nat \<Rightarrow> int list" where
  "nearest xs x k =
     map int (take k (sort_key (\<lambda>i. (xs ! i - x) * (xs ! i - x)) [0..<length xs]))
       @ replicate (k - length xs) (- 1)"

definition search_exact :: "int searcher" where
  "search_exact xs queries k = Inr (map (\<lambda>x. nearest xs x k) queries)"

definition paris :: "int retriever" where
  "paris = snd (build_knowledge_base (serp_hits 1) encode_length (init ''key'') ''Paris'')"

definition paris_rome :: "int retriever" where
  "paris_rome = snd (build_knowledge_base (serp_hits 1) encode_length paris ''Rome'')"

definition lonely :: "int retriever" where
  "lonely = snd (build_knowledge_base (serp_no_restaurants 1) encode_length (init ''key'') ''Rome'')"

definition athens :: "int retriever" where
  "athens = snd (build_knowledge_base (serp_hits 2) encode_length (init ''key'') ''Athens'')"


section \<open>Facts about the methods\<close>

subsection \<open>Reading the knowledge base\<close>

lemma getitems_in_range:
  "list_all (\<lambda>l. 0 \<le> l \<and> l < int (length xs)) labels \<Longrightarrow>
   getitems xs labels = Inr (map (\<lambda>l. xs ! nat l) labels)"
  by (induction labels) (simp_all add: getitem_def)

lemma getitems_length: "getitems xs labels = Inr ys \<Longrightarrow> length ys = length labels"
  by (induction labels arbitrary: ys) (auto split: sum.splits)

lemma getitem_error: "getitem xs i = Inl e \<Longrightarrow> e = IndexError"
  by (simp add: getitem_def split: if_splits)

lemma getitems_out_of_range:
  "l \<in> set labels \<Longrightarrow> int (length xs) \<le> l \<Longrightarrow> getitems xs labels = Inl IndexError"
proof (induction labels)
  case Nil
  then show ?case by simp
next
  case (Cons i labels)
  show ?case
  proof (cases "getitem xs i")
    case (Inl e)
    then show ?thesis by (simp add: getitem_error)
  next
    case (Inr x)
    with Cons.prems have "l \<noteq> i"
      by (auto simp: getitem_def split: if_splits)
    with Cons have "getitems xs labels = Inl IndexError" by simp
    with Inr show ?thesis by simp
  qed
qed

subsection \<open>The build\<close>

lemma build_returns: "fst (build_knowledge_base web encode self destination) = Inr ()"
  by (simp add: build_knowledge_base_def build_body_def Let_def split: sum.splits prod.splits)

lemma build_knowledge_base_kb:
  "knowledge_base (snd (build_knowledge_base web encode self destination)) =
     get_destination_attractions web self destination @
     get_destination_restaurants web self destination"
  by (simp add: build_knowledge_base_def build_body_def Let_def split: sum.splits prod.splits)

lemma build_knowledge_base_index:
  "index (snd (build_knowledge_base web encode self destination)) =
     index self @
     (case encode (get_destination_attractions web self destination @
                   get_destination_restaurants web self destination) of
        Inl e \<Rightarrow> [] | Inr embeddings \<Rightarrow> embeddings)"
  by (simp add: build_knowledge_base_def build_body_def Let_def split: sum.splits prod.splits)

lemma build_knowledge_base_calls:
  "encoder_calls (snd (build_knowledge_base web encode self destination)) =
     encoder_calls self @
     [get_destination_attractions web self destination @
      get_destination_restaurants web self destination]"
  by (simp add: build_knowledge_base_def build_body_def Let_def split: sum.splits prod.splits)

lemma attractions_at_most_5: "length (get_destination_attractions web self destination) \<le> 5"
  by (simp add: get_destination_attractions_def split: sum.splits)

lemma restaurants_at_most_5: "length (get_destination_restaurants web self destination) \<le> 5"
  by (simp add: get_destination_restaurants_def split: sum.splits)

text \<open>
  With an encoder that returns one vector for each text, a build makes the index longer by
  the length of the new knowledge base: the two lengths agree after a build exactly when the
  index was empty before it.
\<close>

lemma build_index_length:
  assumes "encode (knowledge_base (snd (build_knowledge_base web encode self destination))) =
             Inr embeddings"
    and "length embeddings =
           length (knowledge_base (snd (build_knowledge_base web encode self destination)))"
  shows "length (index (snd (build_knowledge_base web encode self destination))) =
           length (index self) +
           length (knowledge_base (snd (build_knowledge_base web encode self destination)))"
  using assms by (simp add: build_knowledge_base_kb build_knowledge_base_index)

subsection \<open>The query\<close>

lemma retrieve_returns:
  "\<exists>text. fst (retrieve_relevant_info encode search self query) = Inr text"
  by (simp add: retrieve_relevant_info_def Let_def split: sum.splits)

lemma retrieve_keeps_attributes:
  "index (snd (retrieve_relevant_info encode search self query)) = index self \<and>
   knowledge_base (snd (retrieve_relevant_info encode search self query)) = knowledge_base self"
  by (simp add: retrieve_relevant_info_def Let_def split: sum.splits)

text \<open>
  Three distinct positions of an index cannot all lie below a bound smaller than three.
\<close>

lemma search_row_exceeds:
  assumes "search_row n 3 row" and "3 \<le> n" and "m < 3"
  shows "\<exists>l\<in>set row. int m \<le> l"
proof (rule ccontr)
  assume "\<not> (\<exists>l\<in>set row. int m \<le> l)"
  then have small: "\<forall>l\<in>set row. l < int m" by auto
  from assms(1) have len: "length row = 3" by (simp add: search_row_def)
  with assms(1,2) have d: "distinct row"
    and nonneg: "list_all (\<lambda>l. 0 \<le> l \<and> l < int n) row"
    by (simp_all add: search_row_def)
  from nonneg small have "set row \<subseteq> {0..<int m}"
    by (auto simp: list_all_iff)
  then have "card (set row) \<le> card {0..<int m}"
    by (rule card_mono [OF finite_atLeastLessThan_int])
  with d len assms(3) show False
    by (simp add: distinct_card)
qed

text \<open>
  Whatever the ranking of the library is: when the index holds three vectors or more and the
  knowledge base fewer than three texts, one of the three labels is past the end of the
  knowledge base and the query returns the report of the \<open>IndexError\<close>.
\<close>

lemma stale_index_query_fails:
  assumes "encode [query] = Inr query_embedding"
    and "search (index self) query_embedding 3 = Inr (row # rows)"
    and "search_row (length (index self)) 3 row"
    and "3 \<le> length (index self)"
    and "length (knowledge_base self) < 3"
  shows "fst (retrieve_relevant_info encode search self query) =
           Inr ''Error retrieving information: list index out of range''"
proof -
  from search_row_exceeds [OF assms(3,4,5)]
  obtain l where "l \<in> set row" and "int (length (knowledge_base self)) \<le> l" by blast
  then have "getitems (knowledge_base self) row = Inl IndexError"
    by (rule getitems_out_of_range)
  with assms(1,2) have "relevant_info encode search self query = Inl IndexError"
    by (simp add: relevant_info_def first_row_def)
  then show ?thesis
    by (simp add: retrieve_relevant_info_def IndexError_def)
qed

subsection \<open>The labels of a row as positions of the knowledge base\<close>

text \<open>
  Line 259 reads the knowledge base at every label of the row. A row that holds only
  positions of the index is read as intended: when the index holds three vectors or more
  and the knowledge base at least as many texts as the index holds vectors, the query
  returns exactly three texts, the entries at the labels found, in the order of the labels.
  In every case it returns at most three.
\<close>

lemma query_returns_three_texts:
  assumes "encode [query] = Inr query_embedding"
    and "search (index self) query_embedding 3 = Inr (row # rows)"
    and "search_row (length (index self)) 3 row"
  shows "(\<forall>infos. relevant_info encode search self query = Inr infos \<longrightarrow> length infos \<le> 3) \<and>
         (3 \<le> length (index self) \<and> length (index self) \<le> length (knowledge_base self) \<longrightarrow>
            (\<exists>infos. relevant_info encode search self query = Inr infos \<and>
               length infos = min 3 (length (index self)) \<and>
               infos = map (\<lambda>l. knowledge_base self ! nat l) row \<and>
               set infos \<subseteq> set (knowledge_base self) \<and>
               fst (retrieve_relevant_info encode search self query) =
                 Inr (join newline infos)))"
proof (intro conjI allI impI)
  from assms(3) have len: "length row = 3"
    by (simp add: search_row_def)
  from assms(1,2)
  have r: "relevant_info encode search self query = getitems (knowledge_base self) row"
    by (simp add: relevant_info_def first_row_def)
  {
    fix infos
    assume "relevant_info encode search self query = Inr infos"
    with r have "length infos = length row"
      by (simp add: getitems_length)
    with len show "length infos \<le> 3" by simp
  }
  assume "3 \<le> length (index self) \<and> length (index self) \<le> length (knowledge_base self)"
  then have big: "3 \<le> length (index self)"
    and aligned: "length (index self) \<le> length (knowledge_base self)"
    by simp_all
  from assms(3) len big
  have "list_all (\<lambda>l. 0 \<le> l \<and> l < int (length (index self))) row"
    by (simp add: search_row_def)
  with aligned
  have "list_all (\<lambda>l. 0 \<le> l \<and> l < int (length (knowledge_base self))) row"
    by (auto simp: list_all_iff)
  then have g: "getitems (knowledge_base self) row =
                  Inr (map (\<lambda>l. knowledge_base self ! nat l) row)"
    and sub: "set (map (\<lambda>l. knowledge_base self ! nat l) row) \<subseteq> set (knowledge_base self)"
    by (auto simp: getitems_in_range list_all_iff)
  with r len big
  show "\<exists>infos. relevant_info encode search self query = Inr infos \<and>
          length infos = min 3 (length (index self)) \<and>
          infos = map (\<lambda>l. knowledge_base self ! nat l) row \<and>
          set infos \<subseteq> set (knowledge_base self) \<and>
          fst (retrieve_relevant_info encode search self query) = Inr (join newline infos)"
    by (simp add: retrieve_relevant_info_def)
qed

text \<open>
  An instance: the build for Athens stores four vectors and four texts, and the query for
  \<open>food\<close> returns three texts.
\<close>

lemma athens_query_returns_three_texts:
  "\<exists>infos. relevant_info encode_length search_exact athens ''food'' = Inr infos \<and>
     length infos = 3"
proof -
  have 1: "encode_length [''food''] = Inr [4]" by (simp add: encode_length_def)
  have 2: "search_exact (index athens) [4] 3 = Inr ([0, 1, 2] # [])" by code_simp
  have 3: "search_row (length (index athens)) 3 [0, 1, 2]" by code_simp
  have 4: "3 \<le> length (index athens)" by code_simp
  have 5: "length (index athens) \<le> length (knowledge_base athens)" by code_simp
  from query_returns_three_texts [where encode = encode_length and search = search_exact
      and self = athens and query = "''food''", OF 1 2 3] 4 5
  show ?thesis by auto
qed

text \<open>
  The label \<open>-1\<close>, by which the library says that there is no further neighbour, is not a
  position, but line 259 reads the knowledge base at it as at any other label. On an empty
  index the row holds nothing else; with an empty knowledge base the first read raises.
\<close>

lemma padding_only_row_fails_on_empty_knowledge_base:
  assumes "index self = []" and "knowledge_base self = []"
    and "encode [query] = Inr query_embedding"
    and "search [] query_embedding 3 = Inr (row # rows)"
    and "search_row 0 3 row"
  shows "fst (retrieve_relevant_info encode search self query) =
           Inr ''Error retrieving information: list index out of range''"
proof -
  from assms(5) have "row = replicate 3 (- 1)"
    by (simp add: search_row_def)
  then have "row = [- 1, - 1, - 1]"
    by (simp add: numeral_3_eq_3)
  with assms(2) have "getitems (knowledge_base self) row = Inl IndexError"
    by (simp add: getitem_def)
  with assms(1,3,4) have "relevant_info encode search self query = Inl IndexError"
    by (simp add: relevant_info_def first_row_def)
  then show ?thesis
    by (simp add: retrieve_relevant_info_def IndexError_def)
qed

text \<open>
  An instance: the query for \<open>museum\<close> on a retriever that has never been built.
\<close>

lemma fresh_retriever_museum_query:
  "fst (retrieve_relevant_info encode_length search_exact (init ''k'') ''museum'') =
     Inr ''Error retrieving information: list index out of range''"
proof -
  have 1: "index (init ''k'' :: int retriever) = []" by (simp add: init_def)
  have 2: "knowledge_base (init ''k'' :: int retriever) = []" by (simp add: init_def)
  have 3: "encode_length [''museum''] = Inr [6]" by code_simp
  have 4: "search_exact [] [6] 3 = Inr ([- 1, - 1, - 1] # [])" by code_simp
  have 5: "search_row 0 3 [- 1, - 1, - 1]" by code_simp
  from padding_only_row_fails_on_empty_knowledge_base
    [where encode = encode_length and search = search_exact, OF 1 2 3 4 5]
  show ?thesis .
qed

subsection \<open>The exact search is a search of the documented form\<close>

text \<open>
  Every row that the exact nearest-neighbour search returns has the form that the library
  documents, for every index, every query vector and every \<open>k\<close>.
\<close>

lemma nearest_conforms: "search_row (length xs) k (nearest xs x k)"
proof -
  define found where "found = sort_key (\<lambda>i. (xs ! i - x) * (xs ! i - x)) [0..<length xs]"
  have len: "length found = length xs"
    and dist: "distinct found"
    and rng: "set found = {0..<length xs}"
    by (simp_all add: found_def)
  have n: "nearest xs x k = map int (take k found) @ replicate (k - length xs) (- 1)"
    by (simp add: nearest_def found_def)
  have 1: "length (nearest xs x k) = k"
    using len by (simp add: n)
  have t: "take (length xs) (nearest xs x k) = map int (take k found)"
    using len by (cases "k \<le> length xs") (simp_all add: n)
  have d: "drop (length xs) (nearest xs x k) = replicate (k - length xs) (- 1)"
    using len by (cases "k \<le> length xs") (simp_all add: n)
  have 2: "distinct (map int (take k found))"
    using dist by (simp add: distinct_map)
  have "\<forall>i\<in>set (take k found). i < length xs"
    using rng by (auto dest: in_set_takeD)
  then have 3: "list_all (\<lambda>l. 0 \<le> l \<and> l < int (length xs)) (map int (take k found))"
    by (simp add: list_all_iff)
  from 1 2 3 t d show ?thesis
    by (simp add: search_row_def)
qed

lemma search_exact_conforms:
  "search_exact xs queries k = Inr rows \<Longrightarrow> list_all (search_row (length xs) k) rows"
  by (auto simp: search_exact_def list_all_iff nearest_conforms)


section \<open>The claims\<close>

subsection \<open>C1: the index and the knowledge base have the same length after every build\<close>

text \<open>
  C1 asks that after every build the index holds as many vectors as the knowledge base holds
  texts, also after a second build for another destination. The build assigns a new list to
  \<open>knowledge_base\<close> but only ever adds to \<open>index\<close>: after a build for Paris both hold two
  entries, after the following build for Rome the knowledge base holds two texts and the
  index four vectors.
\<close>

theorem second_build_breaks_length_invariant:
  "length (index paris) = 2 \<and> length (knowledge_base paris) = 2 \<and>
   length (index paris_rome) = 4 \<and> length (knowledge_base paris_rome) = 2"
  by code_simp

subsection \<open>C2: a build discards the index and the knowledge base of the build before\<close>

text \<open>
  C2 asks that the build for a second destination discards the corpus and the index of the
  first, so that a query returns text of the second only. The index of \<open>paris_rome\<close> still
  starts with the two vectors of Paris, the labels found by the search run over all four
  vectors, and the query for \<open>pizza\<close> returns the report of an \<open>IndexError\<close> instead of text
  gathered for Rome.
\<close>

theorem query_after_second_build_fails:
  "index paris_rome = index paris @ [23, 23] \<and>
   knowledge_base paris_rome = [''top attractions in Rome'', ''top restaurants in Rome''] \<and>
   fst (retrieve_relevant_info encode_length search_exact paris_rome ''pizza'') =
     Inr ''Error retrieving information: list index out of range''"
  by code_simp

subsection \<open>C3: the number of results of a query\<close>

text \<open>
  C3 asks for exactly \<open>min k n\<close> results on an index of \<open>n\<close> vectors, and for no padding
  entries when \<open>n < k\<close>. The query asks for \<open>k = 3\<close> neighbours. The index of \<open>lonely\<close>
  holds one vector, the library returns the row \<open>[0, -1, -1]\<close>, and the query reads the
  knowledge base at the two labels \<open>-1\<close> as well, which in a Python list is the last entry:
  it returns three entries, the single text of the knowledge base three times, where C3
  asks for \<open>min 3 1 = 1\<close>.
\<close>

theorem query_pads_small_index:
  "length (index lonely) = 1 \<and>
   relevant_info encode_length search_exact lonely ''pizza'' =
     Inr [''top attractions in Rome'', ''top attractions in Rome'', ''top attractions in Rome'']"
  by code_simp

subsection \<open>C4: a query on an empty index\<close>

text \<open>
  C4 asks that a query on an empty index returns an empty result and produces no error. On
  a retriever that has never been built the library returns the row \<open>[-1, -1, -1]\<close>, the
  query reads the empty knowledge base at the label \<open>-1\<close>, the read raises \<open>IndexError\<close>,
  and the query for \<open>pizza\<close> returns the report of that error instead of the empty text.
\<close>

theorem query_on_fresh_retriever_reports_error:
  "index (init ''key'' :: int retriever) = [] \<and>
   fst (retrieve_relevant_info encode_length search_exact (init ''key'') ''pizza'') =
     Inr ''Error retrieving information: list index out of range''"
  by code_simp

subsection \<open>C5: a build whose embedding step fails\<close>

text \<open>
  C5, as stated, asks that a build whose embedding step fails raises a build error and
  leaves the corpus and the index as they were. Counterexample to C5: the encoder raises
  during the build for Rome on the retriever \<open>paris\<close>; the build returns normally, and the
  knowledge base, which held the texts of Paris, holds the texts of Rome.
\<close>

theorem failed_encoding_replaces_knowledge_base:
  "encode_fails [''top attractions in Rome'', ''top restaurants in Rome''] =
     Inl model_unavailable \<and>
   fst (build_knowledge_base (serp_hits 1) encode_fails paris ''Rome'') = Inr () \<and>
   knowledge_base paris = [''top attractions in Paris'', ''top restaurants in Paris''] \<and>
   knowledge_base (snd (build_knowledge_base (serp_hits 1) encode_fails paris ''Rome'')) =
     [''top attractions in Rome'', ''top restaurants in Rome'']"
  by code_simp

text \<open>
  C5, amended: if the embedding step fails during a build, the build raises nothing (the
  handler of the build catches the exception and the build returns normally) and the index
  is left as it was.
\<close>

theorem failed_encoding_keeps_index:
  assumes "encode (get_destination_attractions web self destination @
                   get_destination_restaurants web self destination) = Inl e"
  shows "fst (build_knowledge_base web encode self destination) = Inr () \<and>
         index (snd (build_knowledge_base web encode self destination)) = index self"
  using assms by (simp add: build_returns build_knowledge_base_index)

text \<open>
  Witness for C5: the build for Rome on the retriever \<open>paris\<close> with the encoder that raises.
\<close>

theorem failed_encoding_keeps_index_witness:
  "fst (build_knowledge_base (serp_hits 1) encode_fails paris ''Rome'') = Inr () \<and>
   index (snd (build_knowledge_base (serp_hits 1) encode_fails paris ''Rome'')) = index paris"
proof -
  have "encode_fails (get_destination_attractions (serp_hits 1) paris ''Rome'' @
                      get_destination_restaurants (serp_hits 1) paris ''Rome'') =
          Inl model_unavailable"
    by (simp add: encode_fails_def)
  from failed_encoding_keeps_index [where encode = encode_fails and web = "serp_hits 1"
      and self = paris and destination = "''Rome''", OF this]
  show ?thesis .
qed

subsection \<open>C6: a query whose embedding step fails\<close>

text \<open>
  C6, as stated, asks that a query whose embedding step fails does not return an ordinary
  result but fails with a query embedding error. Counterexample to C6: with the encoder that
  raises, the query for \<open>pizza\<close> returns a text, the report of the exception.
\<close>

theorem failed_query_encoding_returns_text:
  "encode_fails [''pizza''] = Inl model_unavailable \<and>
   fst (retrieve_relevant_info encode_fails search_exact paris ''pizza'') =
     Inr ''Error retrieving information: embedding model unavailable''"
  by code_simp

text \<open>
  C6, amended: for every query text, if embedding the query fails then the query raises
  nothing: it returns the text \<^verbatim>\<open>Error retrieving information: \<close> followed by the message
  of the exception, and the index and the knowledge base are left as they were.
\<close>

theorem failed_query_encoding_is_reported:
  assumes "encode [query] = Inl e"
  shows "fst (retrieve_relevant_info encode search self query) =
           Inr (''Error retrieving information: '' @ str e) \<and>
         index (snd (retrieve_relevant_info encode search self query)) = index self \<and>
         knowledge_base (snd (retrieve_relevant_info encode search self query)) =
           knowledge_base self"
  using assms by (simp add: retrieve_relevant_info_def relevant_info_def)

text \<open>
  Witness for C6: the query for \<open>museum\<close> on the retriever \<open>paris\<close> with the encoder that
  raises.
\<close>

theorem failed_query_encoding_is_reported_witness:
  "fst (retrieve_relevant_info encode_fails search_exact paris ''museum'') =
     Inr (''Error retrieving information: '' @ str model_unavailable) \<and>
   index (snd (retrieve_relevant_info encode_fails search_exact paris ''museum'')) =
     index paris \<and>
   knowledge_base (snd (retrieve_relevant_info encode_fails search_exact paris ''museum'')) =
     knowledge_base paris"
proof -
  have "encode_fails [''museum''] = Inl model_unavailable" by (simp add: encode_fails_def)
  from failed_query_encoding_is_reported [where encode = encode_fails
      and query = "''museum''" and search = search_exact and self = paris, OF this]
  show ?thesis .
qed

subsection \<open>C7: a source that fails does not abort the build\<close>

text \<open>
  C7: when the search for the attractions raises, the build still returns normally, the
  attractions contribute no entry, and the knowledge base is exactly the list of the
  restaurant snippets; and the same with the two sources exchanged.
\<close>

theorem failing_source_is_isolated:
  "(web \<lparr>engine = ''google'', q = ''top attractions in '' @ destination,
         api_key = serpapi_key self\<rparr> = Inl e \<longrightarrow>
      fst (build_knowledge_base web encode self destination) = Inr () \<and>
      get_destination_attractions web self destination = [] \<and>
      knowledge_base (snd (build_knowledge_base web encode self destination)) =
        get_destination_restaurants web self destination) \<and>
   (web \<lparr>engine = ''google'', q = ''top restaurants in '' @ destination,
         api_key = serpapi_key self\<rparr> = Inl e \<longrightarrow>
      fst (build_knowledge_base web encode self destination) = Inr () \<and>
      get_destination_restaurants web self destination = [] \<and>
      knowledge_base (snd (build_knowledge_base web encode self destination)) =
        get_destination_attractions web self destination)"
proof (intro conjI impI)
  assume "web \<lparr>engine = ''google'', q = ''top attractions in '' @ destination,
         api_key = serpapi_key self\<rparr> = Inl e"
  then show "get_destination_attractions web self destination = []"
    by (simp add: get_destination_attractions_def)
  then show "knowledge_base (snd (build_knowledge_base web encode self destination)) =
        get_destination_restaurants web self destination"
    by (simp add: build_knowledge_base_kb)
next
  assume "web \<lparr>engine = ''google'', q = ''top restaurants in '' @ destination,
         api_key = serpapi_key self\<rparr> = Inl e"
  then show "get_destination_restaurants web self destination = []"
    by (simp add: get_destination_restaurants_def)
  then show "knowledge_base (snd (build_knowledge_base web encode self destination)) =
        get_destination_attractions web self destination"
    by (simp add: build_knowledge_base_kb)
qed (simp_all add: build_returns)

text \<open>
  Witness for C7: a search service that is down for the attractions query and answers the
  restaurants query with two results, and one that is down for the restaurants query.
\<close>

theorem failing_source_is_isolated_witness:
  "knowledge_base (snd (build_knowledge_base (serp_no_attractions 2) encode_length
      (init ''key'') ''Rome'')) =
     [''top restaurants in Rome'', ''top restaurants in Rome''] \<and>
   knowledge_base (snd (build_knowledge_base (serp_no_restaurants 2) encode_length
      (init ''key'') ''Rome'')) =
     [''top attractions in Rome'', ''top attractions in Rome'']"
proof -
  have 1: "serp_no_attractions 2 \<lparr>engine = ''google'', q = ''top attractions in '' @ ''Rome'',
         api_key = serpapi_key (init ''key'' :: int retriever)\<rparr> = Inl serp_down"
    by (simp add: serp_no_attractions_def)
  have 2: "serp_no_restaurants 2 \<lparr>engine = ''google'', q = ''top restaurants in '' @ ''Rome'',
         api_key = serpapi_key (init ''key'' :: int retriever)\<rparr> = Inl serp_down"
    by (simp add: serp_no_restaurants_def)
  have 3: "get_destination_restaurants (serp_no_attractions 2) (init ''key'' :: int retriever)
      ''Rome'' = [''top restaurants in Rome'', ''top restaurants in Rome'']"
    by code_simp
  have 4: "get_destination_attractions (serp_no_restaurants 2) (init ''key'' :: int retriever)
      ''Rome'' = [''top attractions in Rome'', ''top attractions in Rome'']"
    by code_simp
  from failing_source_is_isolated [where web = "serp_no_attractions 2"
        and destination = "''Rome''" and self = "init ''key'' :: int retriever"
        and encode = encode_length and e = serp_down] 1
       failing_source_is_isolated [where web = "serp_no_restaurants 2"
        and destination = "''Rome''" and self = "init ''key'' :: int retriever"
        and encode = encode_length and e = serp_down] 2
       3 4
  show ?thesis by simp
qed

subsection \<open>C8: the corpus, the single call of the encoder and the insertion\<close>

text \<open>
  C8: after every build the knowledge base is the list of the attraction snippets followed
  by the list of the restaurant snippets; the build hands exactly one batch to the encoder,
  the whole knowledge base; and the vectors that the encoder returns are appended to the
  index in the order in which it returned them (none when it raises).
\<close>

theorem build_concatenates_and_encodes_once:
  "knowledge_base (snd (build_knowledge_base web encode self destination)) =
     get_destination_attractions web self destination @
     get_destination_restaurants web self destination \<and>
   encoder_calls (snd (build_knowledge_base web encode self destination)) =
     encoder_calls self @
     [knowledge_base (snd (build_knowledge_base web encode self destination))] \<and>
   index (snd (build_knowledge_base web encode self destination)) =
     index self @
     (case encode (knowledge_base (snd (build_knowledge_base web encode self destination))) of
        Inl e \<Rightarrow> [] | Inr embeddings \<Rightarrow> embeddings)"
  by (simp add: build_knowledge_base_kb build_knowledge_base_calls build_knowledge_base_index)

subsection \<open>C10: at most ten entries\<close>

text \<open>
  C10: each source returns at most five snippets, so the knowledge base that a build
  constructs has at most ten entries.
\<close>

theorem knowledge_base_at_most_10:
  "length (get_destination_attractions web self destination) \<le> 5 \<and>
   length (get_destination_restaurants web self destination) \<le> 5 \<and>
   length (knowledge_base (snd (build_knowledge_base web encode self destination))) \<le> 10"
  using attractions_at_most_5 [of web self destination]
    restaurants_at_most_5 [of web self destination]
  by (simp add: build_knowledge_base_kb)

end
